theory Spec2Isabelle
  imports Main
begin

unbundle bit_operations_syntax

section \<open>Errors\<close>

text \<open>
  A Go \<^verbatim>\<open>error\<close> value. \<^verbatim>\<open>nil\<close> is \<open>None\<close> of \<open>error option\<close>.
  \<open>NotExist path\<close> is the error of opening a file that is not there, the one
  \<^verbatim>\<open>os.IsNotExist\<close> recognises; \<open>Failure msg\<close> is any other error of a collaborator;
  \<open>Errorf fmt err\<close> is \<^verbatim>\<open>fmt.Errorf(fmt, err)\<close>, a new error that only keeps the text of
  \<open>err\<close>.
\<close>

datatype error =
    NotExist string
  | Failure string
  | Errorf string "error option"

fun IsNotExist :: "error option \<Rightarrow> bool" where
  "IsNotExist (Some (NotExist p)) = True"
| "IsNotExist err = False"

text \<open>
  A function either returns or panics (here: on a nil dereference); a panic unwinds
  through its callers.
\<close>

datatype 'a outcome = Return 'a | Panic

section \<open>Strings\<close>

text \<open>
  \<^verbatim>\<open>strings.Split(s, sep)\<close> for a separator of one byte, which is how the source calls it
  (\<^verbatim>\<open>":"\<close> and \<^verbatim>\<open>","\<close>). The result is never empty: splitting the empty string gives one
  empty string.
\<close>

fun Split :: "string \<Rightarrow> char \<Rightarrow> string list" where
  "Split [] sep = [[]]"
| "Split (c # cs) sep =
     (if c = sep then [] # Split cs sep
      else (case Split cs sep of
              [] \<Rightarrow> [[c]]
            | w # ws \<Rightarrow> (c # w) # ws))"

section \<open>HTTP data\<close>

text \<open>
  \<^verbatim>\<open>http.Header\<close> is a map from canonical header names to lists of values. \<^verbatim>\<open>Get\<close> and
  \<^verbatim>\<open>Set\<close> canonicalise the name first; the canonicalisation of the standard library
  (\<^verbatim>\<open>textproto.CanonicalMIMEHeaderKey\<close>) is the parameter \<open>canon\<close>.
\<close>

type_synonym Header = "string \<rightharpoonup> string list"

definition Header_Get :: "(string \<Rightarrow> string) \<Rightarrow> Header \<Rightarrow> string \<Rightarrow> string" where
  "Header_Get canon h key =
     (case h (canon key) of
        None \<Rightarrow> []
      | Some [] \<Rightarrow> []
      | Some (v # vs) \<Rightarrow> v)"

definition Header_Set :: "(string \<Rightarrow> string) \<Rightarrow> Header \<Rightarrow> string \<Rightarrow> string \<Rightarrow> Header" where
  "Header_Set canon h key v = h(canon key \<mapsto> [v])"

record Request =
  Method :: string
  Host :: string
  RequestURI :: string
  RemoteAddr :: string
  Header :: Header

record Response =
  StatusCode :: nat
  RespHeader :: Header
  Body :: string

text \<open>
  The \<^verbatim>\<open>http.ResponseWriter\<close> the server hands to a handler: the header map the handler
  edits, whether the status line has been written, the status and the headers that went
  out with it, and the body written so far. \<^verbatim>\<open>WriteHeader\<close> sends the status with a
  snapshot of the headers; a second call is ignored.
\<close>

record ResponseWriter =
  handlerHeader :: Header
  wroteHeader :: bool
  status :: nat
  sentHeader :: Header
  body :: string

definition WriteHeader :: "nat \<Rightarrow> ResponseWriter \<Rightarrow> ResponseWriter" where
  "WriteHeader code w =
     (if wroteHeader w then w
      else w\<lparr>wroteHeader := True, status := code, sentHeader := handlerHeader w\<rparr>)"

definition freshWriter :: ResponseWriter where
  "freshWriter =
     \<lparr>handlerHeader = Map.empty, wroteHeader = False, status = 0,
      sentHeader = Map.empty, body = []\<rparr>"

section \<open>Calls to collaborators\<close>

text \<open>
  The functions below return, beside their result, the list of calls they made to their
  collaborators and of the lines they logged, in program order.
\<close>

datatype call =
    Call_RewriteRequest Request
  | Call_rewrite "Response option"
  | Call_handleInfoRequest Request
  | Call_serverProxy_ServeHTTP Request
  | Call_Intercept Request
  | Call_reverseProxy_ServeHTTP Request
  | Log_Headers string Header
  | Log_Debugf string string

definition CONNECT :: string where
  "CONNECT = ''CONNECT''"

definition X_LANTERN_REQUEST_INFO :: string where
  "X_LANTERN_REQUEST_INFO = ''X-Lantern-Request-Info''"

definition X_LANTERN_PUBLIC_IP :: string where
  "X_LANTERN_PUBLIC_IP = ''X-LANTERN-PUBLIC-IP''"

text \<open>\<^verbatim>\<open>dumpHeaders\<close>: logs the headers when the \<^verbatim>\<open>dumpheaders\<close> flag is set.\<close>

definition dumpHeaders :: "bool \<Rightarrow> string \<Rightarrow> Header \<Rightarrow> call list" where
  "dumpHeaders dumpheaders category headers =
     (if dumpheaders then [Log_Headers category headers] else [])"

text \<open>Which entries of a list of calls are calls to the client rewriter, to the response
  rewriter, and to one of the two paths of the downstream client.\<close>

definition is_dispatch :: "call \<Rightarrow> bool" where
  "is_dispatch c = (case c of Call_Intercept r \<Rightarrow> True | Call_reverseProxy_ServeHTTP r \<Rightarrow> True | _ \<Rightarrow> False)"

definition is_RewriteRequest :: "call \<Rightarrow> bool" where
  "is_RewriteRequest c = (case c of Call_RewriteRequest r \<Rightarrow> True | _ \<Rightarrow> False)"

definition is_rewrite :: "call \<Rightarrow> bool" where
  "is_rewrite c = (case c of Call_rewrite r \<Rightarrow> True | _ \<Rightarrow> False)"

section \<open>The client proxy's Director\<close>

text \<open>
  The \<^verbatim>\<open>Director\<close> closure of \<^verbatim>\<open>clientProxy\<close>. Its collaborators are parameters:
  \<open>ResolveIPAddr\<close> is \<^verbatim>\<open>net.ResolveIPAddr\<close> (given the network and the host, an error or
  an address), \<open>IsLoopback\<close> is \<^verbatim>\<open>ip.IP.IsLoopback\<close>, \<open>RewriteRequest\<close> is
  \<^verbatim>\<open>clientProtocol.RewriteRequest\<close>, which edits the request in place.
\<close>

definition clientProxy_Director ::
  "(string \<Rightarrow> string \<Rightarrow> error + 'ip) \<Rightarrow> ('ip \<Rightarrow> bool) \<Rightarrow> (Request \<Rightarrow> Request) \<Rightarrow> bool \<Rightarrow>
     Request \<Rightarrow> Request \<times> call list" where
  "clientProxy_Director ResolveIPAddr IsLoopback RewriteRequest dumpheaders req =
     (case ResolveIPAddr ''ip4'' (Split (Host req) CHR '':'' ! 0) of
        Inr ip \<Rightarrow>
          if \<not> IsLoopback ip then
            (let req' = RewriteRequest req
             in (req', Call_RewriteRequest req # dumpHeaders dumpheaders ''Request'' (Header req')))
          else (req, dumpHeaders dumpheaders ''Request'' (Header req))
      | Inl err \<Rightarrow> (req, dumpHeaders dumpheaders ''Request'' (Header req)))"

section \<open>The wrapped round tripper\<close>

record wrappedRoundTripper =
  rewrite :: "Response \<Rightarrow> Response"
  orig :: "Request \<Rightarrow> Response option \<times> error option"

definition withRewrite ::
  "(Response \<Rightarrow> Response) \<Rightarrow> (Request \<Rightarrow> Response option \<times> error option) \<Rightarrow> wrappedRoundTripper" where
  "withRewrite rw rt = \<lparr>rewrite = rw, orig = rt\<rparr>"

text \<open>
  \<^verbatim>\<open>RoundTrip\<close>. The response is a pointer that \<^verbatim>\<open>rewrite\<close> edits in place; a nil response
  with a nil error makes \<^verbatim>\<open>resp.Header\<close> panic after the call to \<^verbatim>\<open>rewrite\<close>.
\<close>

definition RoundTrip ::
  "bool \<Rightarrow> wrappedRoundTripper \<Rightarrow> Request \<Rightarrow>
     (Response option \<times> error option) outcome \<times> call list" where
  "RoundTrip dumpheaders rt req =
     (case orig rt req of
        (resp, None) \<Rightarrow>
          (case resp of
             Some r \<Rightarrow>
               (let r' = rewrite rt r
                in (Return (Some r', None),
                    Call_rewrite resp # dumpHeaders dumpheaders ''Response'' (RespHeader r')))
           | None \<Rightarrow> (Panic, [Call_rewrite resp]))
      | (resp, Some err) \<Rightarrow> (Return (resp, Some err), []))"

section \<open>The server-side handler\<close>

definition handleInfoRequest ::
  "(string \<Rightarrow> string) \<Rightarrow> ResponseWriter \<Rightarrow> Request \<Rightarrow> ResponseWriter" where
  "handleInfoRequest canon resp req =
     (let clientIp = Header_Get canon (Header req) ''X-Forwarded-For'';
          clientIp =
            (if clientIp = [] then Split (RemoteAddr req) CHR '':'' ! 0
             else (let ips = Split clientIp CHR '',''
                   in ips ! (length ips - 1)))
      in WriteHeader 200
           (resp\<lparr>handlerHeader := Header_Set canon (handlerHeader resp) X_LANTERN_PUBLIC_IP clientIp\<rparr>))"

text \<open>
  \<^verbatim>\<open>handleServer\<close>; \<open>serverProxy_ServeHTTP\<close> is the reverse proxy of the server side
  (\<^verbatim>\<open>serverProxy.ServeHTTP\<close>), which rewrites the request and forwards it.
\<close>

definition handleServer ::
  "(string \<Rightarrow> string) \<Rightarrow> (ResponseWriter \<Rightarrow> Request \<Rightarrow> ResponseWriter) \<Rightarrow>
     ResponseWriter \<Rightarrow> Request \<Rightarrow> ResponseWriter \<times> call list" where
  "handleServer canon serverProxy_ServeHTTP resp req =
     (if Header_Get canon (Header req) X_LANTERN_REQUEST_INFO \<noteq> []
      then (handleInfoRequest canon resp req, [Call_handleInfoRequest req])
      else (serverProxy_ServeHTTP resp req, [Call_serverProxy_ServeHTTP req]))"

section \<open>The downstream client of package proxy\<close>

text \<open>
  \<^verbatim>\<open>Client.ServeHTTP\<close> of \<^verbatim>\<open>proxy/client.go\<close>. \<open>Intercept\<close> is
  \<^verbatim>\<open>client.EnproxyConfig.Intercept\<close> and \<open>reverseProxy_ServeHTTP\<close> is
  \<^verbatim>\<open>client.reverseProxy.ServeHTTP\<close>, the reverse proxy that \<^verbatim>\<open>Run\<close> builds before it
  starts the server.
\<close>

record Client =
  Intercept :: "ResponseWriter \<Rightarrow> Request \<Rightarrow> ResponseWriter"
  reverseProxy_ServeHTTP :: "ResponseWriter \<Rightarrow> Request \<Rightarrow> ResponseWriter"

definition Client_ServeHTTP ::
  "Client \<Rightarrow> ResponseWriter \<Rightarrow> Request \<Rightarrow> ResponseWriter \<times> call list" where
  "Client_ServeHTTP client resp req =
     (if Method req = CONNECT
      then (Intercept client resp req,
            [Log_Debugf ''Handling request for: %s'' (RequestURI req), Call_Intercept req])
      else (reverseProxy_ServeHTTP client resp req,
            [Log_Debugf ''Handling request for: %s'' (RequestURI req), Call_reverseProxy_ServeHTTP req]))"

section \<open>Time\<close>

text \<open>
  An instant is a number of nanoseconds since the Unix epoch. \<^verbatim>\<open>Nanosecond()\<close> is the
  nanosecond offset within the second, in 0..999999999; \<^verbatim>\<open>t.Before(u)\<close> is \<open>t < u\<close>.
\<close>

type_synonym time = int

definition Nanosecond :: "time \<Rightarrow> int" where
  "Nanosecond t = t mod 1000000000"

definition Before :: "time \<Rightarrow> time \<Rightarrow> bool" where
  "Before t u = (t < u)"

text \<open>
  The encoding of a certificate keeps the two ends of its validity as whole seconds: the
  instant with its nanoseconds dropped.
\<close>

definition truncate_to_second :: "time \<Rightarrow> time" where
  "truncate_to_second t = t - t mod 1000000000"

section \<open>Keys and certificates\<close>

text \<open>
  The fields of \<^verbatim>\<open>x509.Certificate\<close> that the source sets, with the key-usage bits of
  \<^verbatim>\<open>crypto/x509\<close>.
\<close>

record x509_Certificate =
  SerialNumber :: int
  Organization :: "string list"
  CommonName :: string
  NotBefore :: time
  NotAfter :: time
  BasicConstraintsValid :: bool
  KeyUsage :: int
  ExtKeyUsage :: "int list"
  IsCA :: bool

definition KeyUsageDigitalSignature :: int where
  "KeyUsageDigitalSignature = 1"

definition KeyUsageKeyEncipherment :: int where
  "KeyUsageKeyEncipherment = 4"

definition KeyUsageCertSign :: int where
  "KeyUsageCertSign = 32"

definition ExtKeyUsageServerAuth :: int where
  "ExtKeyUsageServerAuth = 1"

text \<open>
  \<^verbatim>\<open>keyman.PrivateKey\<close> and \<^verbatim>\<open>keyman.Certificate\<close>. A key has a size in bits and its
  key material; a certificate has its X.509 fields, the certificate of the issuer that
  signed it (\<open>None\<close> when it is self-signed) and the key it certifies.
\<close>

record PrivateKey =
  bits :: nat
  material :: nat

record Certificate =
  X509 :: x509_Certificate
  signer :: "x509_Certificate option"
  subjectKey :: PrivateKey

text \<open>What a PEM file on disk holds.\<close>

datatype pem =
    PEM_PrivateKey PrivateKey
  | PEM_Certificate Certificate
  | PEM_Unreadable

section \<open>The environment and the state of a run\<close>

text \<open>
  Everything the process takes from outside: the command-line flags, the wall clock
  (\<open>Now e k\<close> is the k-th reading of \<^verbatim>\<open>time.Now()\<close>), calendar arithmetic
  (\<^verbatim>\<open>AddDate\<close>), the random sources (\<^verbatim>\<open>uuid.New()\<close>, key generation), whether signing
  or writing a file fails, and the trust store operations of the operating system
  (\<^verbatim>\<open>IsInstalled\<close>, \<^verbatim>\<open>AddAsTrustedRoot\<close>).
\<close>

record env =
  upstreamHost :: string
  install :: bool
  configDir :: string
  PathSeparator :: char
  Now :: "nat \<Rightarrow> time"
  AddDate :: "time \<Rightarrow> int \<Rightarrow> int \<Rightarrow> int \<Rightarrow> time"
  uuid_New :: string
  keygen :: "nat \<Rightarrow> error + nat"
  sign_error :: "PrivateKey \<Rightarrow> x509_Certificate \<Rightarrow> error option"
  write_error :: "string \<Rightarrow> error option"
  IsInstalled :: "Certificate \<Rightarrow> Certificate list \<Rightarrow> error + bool"
  AddAsTrustedRoot :: "Certificate \<Rightarrow> Certificate list \<Rightarrow> error option \<times> Certificate list"

text \<open>The calls made to the trust store operations, with the certificate they are made on.\<close>

datatype trust_call =
    Called_IsInstalled Certificate
  | Called_AddAsTrustedRoot Certificate

text \<open>
  The package-level variables \<^verbatim>\<open>pk\<close>, \<^verbatim>\<open>caCert\<close> and \<^verbatim>\<open>serverCert\<close> (\<open>None\<close> is
  nil), the files on disk, the trust store and the calls made to its operations so far,
  the number of clock readings taken so far and the lines logged.
\<close>

record state =
  files :: "string \<rightharpoonup> pem"
  pk :: "PrivateKey option"
  caCert :: "Certificate option"
  serverCert :: "Certificate option"
  trustStore :: "Certificate list"
  trustCalls :: "trust_call list"
  ticks :: nat
  logged :: "string list"

definition FLASHLIGHT_CN_PREFIX :: string where
  "FLASHLIGHT_CN_PREFIX = ''flashlight-''"

text \<open>
  The points in time of the \<^verbatim>\<open>var\<close> block, initialised in declaration order when the
  process starts: the first four readings of the clock.
\<close>

definition TOMORROW :: "env \<Rightarrow> time" where
  "TOMORROW e = AddDate e (Now e 0) 0 0 1"

definition ONE_MONTH_FROM_TODAY :: "env \<Rightarrow> time" where
  "ONE_MONTH_FROM_TODAY e = AddDate e (Now e 1) 0 1 0"

definition ONE_YEAR_FROM_TODAY :: "env \<Rightarrow> time" where
  "ONE_YEAR_FROM_TODAY e = AddDate e (Now e 2) 1 0 0"

definition TEN_YEARS_FROM_TODAY :: "env \<Rightarrow> time" where
  "TEN_YEARS_FROM_TODAY e = AddDate e (Now e 3) 10 0 0"

definition isDownstream :: "env \<Rightarrow> bool" where
  "isDownstream e = (upstreamHost e \<noteq> [])"

definition isUpstream :: "env \<Rightarrow> bool" where
  "isUpstream e = (\<not> isDownstream e)"

text \<open>
  \<^verbatim>\<open>inConfigDir\<close>: the path of a file of the configuration directory (the directory
  itself is created when the process starts).
\<close>

definition inConfigDir :: "env \<Rightarrow> string \<Rightarrow> string" where
  "inConfigDir e filename =
     (if configDir e = [] then filename
      else configDir e @ [PathSeparator e] @ filename)"

definition PK_FILE :: "env \<Rightarrow> string" where
  "PK_FILE e = inConfigDir e ''proxypk.pem''"

definition CA_CERT_FILE :: "env \<Rightarrow> string" where
  "CA_CERT_FILE e = inConfigDir e ''cacert.pem''"

definition SERVER_CERT_FILE :: "env \<Rightarrow> string" where
  "SERVER_CERT_FILE e = inConfigDir e ''servercert.pem''"

definition Printf :: "string \<Rightarrow> state \<Rightarrow> state" where
  "Printf line s = s\<lparr>logged := logged s @ [line]\<rparr>"

definition time_Now :: "env \<Rightarrow> state \<Rightarrow> time \<times> state" where
  "time_Now e s = (Now e (ticks s), s\<lparr>ticks := Suc (ticks s)\<rparr>)"

section \<open>The operations of keyman\<close>

text \<open>
  keyman is a library outside the repository. The model keeps its contract: loading
  reads the file (a missing file is the error \<^verbatim>\<open>os.IsNotExist\<close> recognises), writing
  stores the PEM or fails, \<^verbatim>\<open>GeneratePK(bits)\<close> gives a key of that size or fails, and
  \<^verbatim>\<open>pk.Certificate(template, issuer)\<close> gives the certificate of the template, signed by
  the issuer or by itself when the issuer is nil, or fails. The certificate is encoded
  and parsed again, so its \<^verbatim>\<open>NotBefore\<close> and \<^verbatim>\<open>NotAfter\<close> are those of the template in
  whole seconds; the other fields of the template come back as they were. Called on a nil
  key it panics.
\<close>

definition LoadPKFromFile :: "state \<Rightarrow> string \<Rightarrow> error + PrivateKey" where
  "LoadPKFromFile s filename =
     (case files s filename of
        None \<Rightarrow> Inl (NotExist filename)
      | Some (PEM_PrivateKey k) \<Rightarrow> Inr k
      | Some other \<Rightarrow> Inl (Failure ''Unable to decode PEM encoded private key data''))"

definition LoadCertificateFromFile :: "state \<Rightarrow> string \<Rightarrow> error + Certificate" where
  "LoadCertificateFromFile s filename =
     (case files s filename of
        None \<Rightarrow> Inl (NotExist filename)
      | Some (PEM_Certificate c) \<Rightarrow> Inr c
      | Some other \<Rightarrow> Inl (Failure ''Unable to decode PEM encoded certificate data''))"

definition WriteToFile :: "env \<Rightarrow> string \<Rightarrow> pem \<Rightarrow> state \<Rightarrow> error option \<times> state" where
  "WriteToFile e filename content s =
     (case write_error e filename of
        Some err \<Rightarrow> (Some err, s)
      | None \<Rightarrow> (None, s\<lparr>files := (files s)(filename \<mapsto> content)\<rparr>))"

definition GeneratePK :: "env \<Rightarrow> nat \<Rightarrow> error + PrivateKey" where
  "GeneratePK e n =
     (case keygen e n of
        Inl err \<Rightarrow> Inl err
      | Inr m \<Rightarrow> Inr \<lparr>bits = n, material = m\<rparr>)"

definition pk_Certificate ::
  "env \<Rightarrow> PrivateKey option \<Rightarrow> x509_Certificate \<Rightarrow> Certificate option \<Rightarrow> (error + Certificate) outcome" where
  "pk_Certificate e key template issuer =
     (case key of
        None \<Rightarrow> Panic
      | Some k \<Rightarrow>
          (case sign_error e k template of
             Some err \<Rightarrow> Return (Inl err)
           | None \<Rightarrow>
               Return (Inr \<lparr>X509 = template
                              \<lparr>NotBefore := truncate_to_second (NotBefore template),
                               NotAfter := truncate_to_second (NotAfter template)\<rparr>,
                            signer = map_option X509 issuer, subjectKey = k\<rparr>)))"

section \<open>Issuing certificates\<close>

text \<open>
  \<^verbatim>\<open>certificateFor\<close>. The two calls of \<^verbatim>\<open>time.Now()\<close> are two readings of the clock, the
  first for the serial number and the second for \<^verbatim>\<open>NotBefore\<close>.
\<close>

definition certificateFor ::
  "env \<Rightarrow> string \<Rightarrow> time \<Rightarrow> bool \<Rightarrow> Certificate option \<Rightarrow> state \<Rightarrow>
     ((error + Certificate) \<times> state) outcome" where
  "certificateFor e name validUntil isCA issuer s =
     (let (t1, s) = time_Now e s;
          (t2, s) = time_Now e s;
          template =
            \<lparr>SerialNumber = Nanosecond t1,
             Organization = [''Lantern''],
             CommonName = name,
             NotBefore = AddDate e t2 0 (- 1) 0,
             NotAfter = validUntil,
             BasicConstraintsValid = True,
             KeyUsage = KeyUsageKeyEncipherment OR KeyUsageDigitalSignature,
             ExtKeyUsage = [],
             IsCA = False\<rparr>;
          template =
            (if issuer = None then
               (let template =
                      (if isCA
                       then template\<lparr>KeyUsage := KeyUsage template OR KeyUsageCertSign\<rparr>
                       else template)
                in template\<lparr>ExtKeyUsage := [ExtKeyUsageServerAuth], IsCA := True\<rparr>)
             else template)
      in (case pk_Certificate e (pk s) template issuer of
            Panic \<Rightarrow> Panic
          | Return r \<Rightarrow> Return (r, s)))"

section \<open>Installing the root into the trust store\<close>

definition installCACertToTrustStoreIfNecessary ::
  "env \<Rightarrow> state \<Rightarrow> (error option \<times> state) outcome" where
  "installCACertToTrustStoreIfNecessary e s =
     (let needInstalledCert = (isDownstream e \<or> install e)
      in if needInstalledCert then
           (case caCert s of
              None \<Rightarrow> Panic
            | Some c \<Rightarrow>
                (let s = s\<lparr>trustCalls := trustCalls s @ [Called_IsInstalled c]\<rparr>
                 in case IsInstalled e c (trustStore s) of
                   Inl err \<Rightarrow>
                     Return (Some (Errorf ''Unable to check if certificate is installed: %s'' (Some err)), s)
                 | Inr haveInstalledCert \<Rightarrow>
                     if \<not> haveInstalledCert then
                       (let s = Printf ''Adding issuing cert to trust store as trusted root'' s;
                            s = s\<lparr>trustCalls := trustCalls s @ [Called_AddAsTrustedRoot c]\<rparr>
                        in case AddAsTrustedRoot e c (trustStore s) of
                             (err, store) \<Rightarrow> Return (err, s\<lparr>trustStore := store\<rparr>))
                     else
                       Return (None, Printf ''Issuing cert already found in trust store, not adding'' s)))
         else Return (None, Printf ''Issuing cert already found in trust store, not adding'' s))"

section \<open>Initialising the key and the root certificate\<close>

text \<open>The first statement of \<^verbatim>\<open>initCommonCerts\<close>: load the private key or create it.\<close>

definition initCommonCerts_pk :: "env \<Rightarrow> state \<Rightarrow> error option \<times> state" where
  "initCommonCerts_pk e s =
     (case LoadPKFromFile s (PK_FILE e) of
        Inr k \<Rightarrow> (None, s\<lparr>pk := Some k\<rparr>)
      | Inl err \<Rightarrow>
          (let s = s\<lparr>pk := None\<rparr>
           in if IsNotExist (Some err) then
                (let s = Printf ''Creating new PK at: %s'' s
                 in case GeneratePK e 2048 of
                      Inl err \<Rightarrow> (Some err, s)
                    | Inr k \<Rightarrow> WriteToFile e (PK_FILE e) (PEM_PrivateKey k) (s\<lparr>pk := Some k\<rparr>))
              else
                (Some (Errorf ''Unable to read private key, even though it exists: %s'' (Some err)), s)))"

text \<open>
  The body of the second \<^verbatim>\<open>if\<close> of \<^verbatim>\<open>initCommonCerts\<close>, entered with the error of
  loading the root certificate (nil when it loaded).
\<close>

definition initCommonCerts_newCACert ::
  "env \<Rightarrow> error option \<Rightarrow> state \<Rightarrow> (error option \<times> state) outcome" where
  "initCommonCerts_newCACert e err s =
     (if IsNotExist err then
        (let s = Printf ''Creating new self-signed CA cert at: %s'' s
         in case certificateFor e (FLASHLIGHT_CN_PREFIX @ uuid_New e) (TEN_YEARS_FROM_TODAY e) True None s of
              Panic \<Rightarrow> Panic
            | Return (Inl err, s) \<Rightarrow> Return (Some err, s\<lparr>caCert := None\<rparr>)
            | Return (Inr c, s) \<Rightarrow>
                Return (WriteToFile e (CA_CERT_FILE e) (PEM_Certificate c) (s\<lparr>caCert := Some c\<rparr>)))
      else Return (Some (Errorf ''Unable to read CA cert, even though it exists: %s'' err), s))"

text \<open>The second statement: load the root certificate, and the condition of the \<^verbatim>\<open>if\<close>.\<close>

definition initCommonCerts_caCert :: "env \<Rightarrow> state \<Rightarrow> (error option \<times> state) outcome" where
  "initCommonCerts_caCert e s =
     (case LoadCertificateFromFile s (CA_CERT_FILE e) of
        Inl err \<Rightarrow> initCommonCerts_newCACert e (Some err) (s\<lparr>caCert := None\<rparr>)
      | Inr c \<Rightarrow>
          (let s = s\<lparr>caCert := Some c\<rparr>
           in if Before (NotAfter (X509 c)) (ONE_MONTH_FROM_TODAY e)
              then initCommonCerts_newCACert e None s
              else Return (None, s)))"

definition initCommonCerts :: "env \<Rightarrow> state \<Rightarrow> (error option \<times> state) outcome" where
  "initCommonCerts e s =
     (case initCommonCerts_pk e s of
        (Some err, s) \<Rightarrow> Return (Some err, s)
      | (None, s) \<Rightarrow>
          (case initCommonCerts_caCert e s of
             Panic \<Rightarrow> Panic
           | Return (Some err, s) \<Rightarrow> Return (Some err, s)
           | Return (None, s) \<Rightarrow>
               (case installCACertToTrustStoreIfNecessary e s of
                  Panic \<Rightarrow> Panic
                | Return (Some err, s) \<Rightarrow>
                    Return (None,
                      Printf ''Unable to install CA Cert to trust store, man in the middling may not work.  Suggest running flashlight as sudo with the -install flag: %s'' s)
                | Return (None, s) \<Rightarrow> Return (None, s))))"

section \<open>Initialising the server certificate\<close>

text \<open>
  The body of the \<^verbatim>\<open>if\<close> of \<^verbatim>\<open>initServerCert\<close>, entered with the error of loading the
  server certificate (nil when it loaded).
\<close>

definition initServerCert_newCert ::
  "env \<Rightarrow> string \<Rightarrow> error option \<Rightarrow> state \<Rightarrow> (error option \<times> state) outcome" where
  "initServerCert_newCert e host err s =
     (if err = None \<or> IsNotExist err then
        (let s = Printf ''Creating new server cert at: %s'' s
         in case certificateFor e host (ONE_YEAR_FROM_TODAY e) True (caCert s) s of
              Panic \<Rightarrow> Panic
            | Return (Inl err, s) \<Rightarrow> Return (Some err, s\<lparr>serverCert := None\<rparr>)
            | Return (Inr c, s) \<Rightarrow>
                Return (WriteToFile e (SERVER_CERT_FILE e) (PEM_Certificate c) (s\<lparr>serverCert := Some c\<rparr>)))
      else Return (Some (Errorf ''Unable to read server cert, even though it exists: %s'' err), s))"

definition initServerCert :: "env \<Rightarrow> string \<Rightarrow> state \<Rightarrow> (error option \<times> state) outcome" where
  "initServerCert e host s =
     (case LoadCertificateFromFile s (SERVER_CERT_FILE e) of
        Inl err \<Rightarrow> initServerCert_newCert e host (Some err) (s\<lparr>serverCert := None\<rparr>)
      | Inr c \<Rightarrow>
          (let s = s\<lparr>serverCert := Some c\<rparr>
           in case caCert s of
                None \<Rightarrow> Panic
              | Some ca \<Rightarrow>
                  if Before (NotAfter (X509 ca)) (ONE_MONTH_FROM_TODAY e)
                  then initServerCert_newCert e host None s
                  else Return (None, s)))"

section \<open>Reading outcomes\<close>

text \<open>What a function returned, if it returned; and the serial number of the certificate that
  \<^verbatim>\<open>certificateFor\<close> issued, if it issued one.\<close>

definition returned :: "'a outcome \<Rightarrow> 'a option" where
  "returned r = (case r of Return x \<Rightarrow> Some x | Panic \<Rightarrow> None)"

definition issued_serial :: "((error + Certificate) \<times> state) outcome \<Rightarrow> int option" where
  "issued_serial r =
     (case r of
        Return (Inr c, s) \<Rightarrow> Some (SerialNumber (X509 c))
      | Return (Inl err, s) \<Rightarrow> None
      | Panic \<Rightarrow> None)"

section \<open>Example inputs\<close>

text \<open>Concrete collaborators and requests, on which the theorems below are instantiated.\<close>

definition resolver :: "string \<Rightarrow> string \<Rightarrow> error + nat list" where
  "resolver network host =
     (if host = ''localhost'' then Inr [127, 0, 0, 1]
      else if host = ''example.com'' then Inr [93, 184, 216, 34]
      else Inl (Failure ''no such host''))"

definition first_is_127 :: "nat list \<Rightarrow> bool" where
  "first_is_127 ip = (case ip of [] \<Rightarrow> False | b # bs \<Rightarrow> b = 127)"

definition to_front :: "Request \<Rightarrow> Request" where
  "to_front req = req\<lparr>Host := ''front.example''\<rparr>"

definition request_to :: "string \<Rightarrow> string \<Rightarrow> Request" where
  "request_to m h = \<lparr>Method = m, Host = h, RequestURI = ''/'', RemoteAddr = ''10.1.2.3:5555'', Header = Map.empty\<rparr>"

definition strip_header :: "Response \<Rightarrow> Response" where
  "strip_header r = r\<lparr>RespHeader := (RespHeader r)(''Cf-Ray'' := None)\<rparr>"

definition inner_rt :: "Request \<Rightarrow> Response option \<times> error option" where
  "inner_rt req =
     (if Host req = ''example.com''
      then (Some \<lparr>StatusCode = 200, RespHeader = [''Cf-Ray'' \<mapsto> [''1'']], Body = ''ok''\<rparr>, None)
      else (None, Some (Failure ''dial tcp: connection refused'')))"

definition demo_client :: Client where
  "demo_client =
     \<lparr>Intercept = (\<lambda>w r. w\<lparr>body := ''tunnel''\<rparr>),
      reverseProxy_ServeHTTP = (\<lambda>w r. w\<lparr>body := ''proxied''\<rparr>)\<rparr>"

definition canon_id :: "string \<Rightarrow> string" where
  "canon_id key = key"

definition info_request :: "string \<Rightarrow> Request" where
  "info_request xff =
     \<lparr>Method = ''GET'', Host = ''proxy.example'', RequestURI = ''/'', RemoteAddr = ''203.0.113.9:40000'',
      Header = (if xff = [] then [''X-Lantern-Request-Info'' \<mapsto> [''1'']]
                else [''X-Lantern-Request-Info'' \<mapsto> [''1''], ''X-Forwarded-For'' \<mapsto> [xff]])\<rparr>"

text \<open>The same request from a caller with an IPv6 address, as \<^verbatim>\<open>net/http\<close> writes it.\<close>

definition info_request_ipv6 :: Request where
  "info_request_ipv6 = (info_request [])\<lparr>RemoteAddr := ''[2001:db8::1]:40000''\<rparr>"

text \<open>
  An environment of a client whose trust store refuses the root, the state of a first
  run, the states after the key and after the root were created, a root that expires
  within the month, and a server whose leaf certificate on disk has expired.
\<close>

definition demo_env :: env where
  "demo_env =
     \<lparr>upstreamHost = ''proxy.example'', install = False, configDir = [], PathSeparator = CHR ''/'',
      Now = (\<lambda>k. 1700000000123456789 + int k * 500000000),
      AddDate = (\<lambda>t y m d. t + (y * 365 + m * 30 + d) * 86400000000000),
      uuid_New = ''6ba7b810-9dad-11d1-80b4-00c04fd430c8'',
      keygen = (\<lambda>n. Inr 7),
      sign_error = (\<lambda>k t. None),
      write_error = (\<lambda>f. None),
      IsInstalled = (\<lambda>c store. Inr (c \<in> set store)),
      AddAsTrustedRoot = (\<lambda>c store. (Some (Failure ''permission denied''), store))\<rparr>"

definition empty_state :: state where
  "empty_state =
     \<lparr>files = Map.empty, pk = None, caCert = None, serverCert = None, trustStore = [],
      trustCalls = [], ticks = 4, logged = []\<rparr>"

definition demo_key :: PrivateKey where
  "demo_key = \<lparr>bits = 2048, material = 7\<rparr>"

definition demo_root :: Certificate where
  "demo_root =
     \<lparr>X509 =
        \<lparr>SerialNumber = 123456789, Organization = [''Lantern''],
         CommonName = ''flashlight-6ba7b810-9dad-11d1-80b4-00c04fd430c8'',
         NotBefore = 1697408002000000000, NotAfter = 2015360001000000000,
         BasicConstraintsValid = True, KeyUsage = 37, ExtKeyUsage = [1], IsCA = True\<rparr>,
      signer = None, subjectKey = demo_key\<rparr>"

definition state_with_key :: state where
  "state_with_key =
     \<lparr>files = [''proxypk.pem'' \<mapsto> PEM_PrivateKey demo_key],
      pk = Some demo_key, caCert = None, serverCert = None, trustStore = [],
      trustCalls = [], ticks = 4, logged = [''Creating new PK at: %s'']\<rparr>"

definition state_with_root :: state where
  "state_with_root =
     \<lparr>files = [''proxypk.pem'' \<mapsto> PEM_PrivateKey demo_key, ''cacert.pem'' \<mapsto> PEM_Certificate demo_root],
      pk = Some demo_key, caCert = Some demo_root, serverCert = None, trustStore = [],
      trustCalls = [], ticks = 6,
      logged = [''Creating new PK at: %s'', ''Creating new self-signed CA cert at: %s'']\<rparr>"

definition server_env :: env where
  "server_env = demo_env\<lparr>upstreamHost := []\<rparr>"

definition expiring_root :: Certificate where
  "expiring_root = demo_root\<lparr>X509 := (X509 demo_root)\<lparr>NotAfter := 1700864000000000000\<rparr>\<rparr>"

definition state_expiring_root :: state where
  "state_expiring_root =
     \<lparr>files = [''proxypk.pem'' \<mapsto> PEM_PrivateKey demo_key, ''cacert.pem'' \<mapsto> PEM_Certificate expiring_root],
      pk = None, caCert = None, serverCert = None, trustStore = [],
      trustCalls = [], ticks = 4, logged = []\<rparr>"

definition expired_leaf :: Certificate where
  "expired_leaf =
     \<lparr>X509 =
        \<lparr>SerialNumber = 42, Organization = [''Lantern''], CommonName = ''198.51.100.1'',
         NotBefore = 1560000000000000000, NotAfter = 1600000000000000000,
         BasicConstraintsValid = True, KeyUsage = 5, ExtKeyUsage = [], IsCA = False\<rparr>,
      signer = Some (X509 demo_root), subjectKey = demo_key\<rparr>"

definition state_expired_leaf :: state where
  "state_expired_leaf =
     \<lparr>files = [''proxypk.pem'' \<mapsto> PEM_PrivateKey demo_key, ''cacert.pem'' \<mapsto> PEM_Certificate demo_root,
               ''servercert.pem'' \<mapsto> PEM_Certificate expired_leaf],
      pk = Some demo_key, caCert = Some demo_root, serverCert = None, trustStore = [],
      trustCalls = [], ticks = 4, logged = []\<rparr>"

section \<open>Facts about splitting\<close>

lemma Split_nonempty: "Split s sep \<noteq> []"
  by (induction s) (auto split: list.splits)

lemma Split_first: "Split s sep ! 0 = takeWhile (\<lambda>c. c \<noteq> sep) s"
  by (induction s) (auto split: list.splits simp: Split_nonempty)

lemma Split_no_sep: "sep \<notin> set s \<Longrightarrow> Split s sep = [s]"
  by (induction s) auto

lemma Split_append: "Split (xs @ sep # ys) sep = Split xs sep @ Split ys sep"
  by (induction xs) (auto split: list.splits simp: Split_nonempty)

lemma Split_last:
  "Split s sep ! (length (Split s sep) - 1) = rev (takeWhile (\<lambda>c. c \<noteq> sep) (rev s))"
proof (cases "sep \<in> set s")
  case False
  then have tw: "takeWhile (\<lambda>c. c \<noteq> sep) (rev s) = rev s"
    by (auto simp: takeWhile_eq_all_conv)
  show ?thesis unfolding tw using False by (simp add: Split_no_sep)
next
  case True
  then have "sep \<in> set (rev s)" by simp
  then obtain ys zs where r: "rev s = ys @ sep # zs" and n: "sep \<notin> set ys"
    by (meson split_list_first)
  have tw: "takeWhile (\<lambda>c. c \<noteq> sep) (rev s) = ys"
    using r n by (auto simp: takeWhile_tail)
  have s: "s = rev zs @ sep # rev ys"
    using r by (metis rev_rev_ident rev_append rev.simps(2) append_assoc append_Cons append_Nil)
  have "Split s sep = Split (rev zs) sep @ [rev ys]"
    using n by (simp add: s Split_append Split_no_sep)
  then show ?thesis by (simp add: tw nth_append)
qed

lemma Header_Get_Set: "Header_Get canon (Header_Set canon h key v) key = v"
  by (simp add: Header_Get_def Header_Set_def)

section \<open>Facts about the certificate operations\<close>

lemma truncate_to_second_bounds:
  "t - 1000000000 < truncate_to_second t" "truncate_to_second t \<le> t"
proof -
  have "0 \<le> t mod 1000000000" "t mod 1000000000 < 1000000000"
    by simp_all
  then show "t - 1000000000 < truncate_to_second t" "truncate_to_second t \<le> t"
    by (simp_all add: truncate_to_second_def)
qed

lemma files_distinct:
  "PK_FILE e \<noteq> CA_CERT_FILE e" "CA_CERT_FILE e \<noteq> PK_FILE e"
  by (simp_all add: PK_FILE_def CA_CERT_FILE_def inConfigDir_def)

lemma Printf_fields [simp]:
  "files (Printf l s) = files s" "pk (Printf l s) = pk s" "caCert (Printf l s) = caCert s"
  "serverCert (Printf l s) = serverCert s" "trustStore (Printf l s) = trustStore s"
  "trustCalls (Printf l s) = trustCalls s" "ticks (Printf l s) = ticks s"
  "logged (Printf l s) = logged s @ [l]"
  by (simp_all add: Printf_def)

lemma initCommonCerts_pk_loaded:
  "files s (PK_FILE e) = Some (PEM_PrivateKey k) \<Longrightarrow> initCommonCerts_pk e s = (None, s\<lparr>pk := Some k\<rparr>)"
  by (simp add: initCommonCerts_pk_def LoadPKFromFile_def)

lemma initCommonCerts_pk_created:
  assumes "files s (PK_FILE e) = None" "keygen e 2048 = Inr m" "write_error e (PK_FILE e) = None"
  shows "initCommonCerts_pk e s =
    (None, (Printf ''Creating new PK at: %s'' (s\<lparr>pk := None\<rparr>))
       \<lparr>pk := Some \<lparr>bits = 2048, material = m\<rparr>,
        files := (files s)(PK_FILE e \<mapsto> PEM_PrivateKey \<lparr>bits = 2048, material = m\<rparr>)\<rparr>)"
  using assms
  by (simp add: initCommonCerts_pk_def LoadPKFromFile_def GeneratePK_def WriteToFile_def Let_def)

lemma initCommonCerts_pk_frame:
  "initCommonCerts_pk e s = (r, s') \<Longrightarrow>
     trustStore s' = trustStore s \<and> trustCalls s' = trustCalls s \<and> caCert s' = caCert s \<and>
     (r = None \<longrightarrow> pk s' \<noteq> None)"
  by (auto simp: initCommonCerts_pk_def WriteToFile_def Let_def
           split: sum.splits option.splits if_splits)

lemma certificateFor_result:
  "pk s = Some k \<Longrightarrow>
   certificateFor e name validUntil isCA issuer s =
     Return ((case sign_error e k
                (\<lparr>SerialNumber = Nanosecond (Now e (ticks s)),
                  Organization = [''Lantern''],
                  CommonName = name,
                  NotBefore = AddDate e (Now e (Suc (ticks s))) 0 (- 1) 0,
                  NotAfter = validUntil,
                  BasicConstraintsValid = True,
                  KeyUsage = (if issuer = None \<and> isCA then 37 else 5),
                  ExtKeyUsage = (if issuer = None then [1] else []),
                  IsCA = (issuer = None)\<rparr>) of
               Some err \<Rightarrow> Inl err
             | None \<Rightarrow> Inr \<lparr>X509 = \<lparr>SerialNumber = Nanosecond (Now e (ticks s)),
                  Organization = [''Lantern''],
                  CommonName = name,
                  NotBefore = truncate_to_second (AddDate e (Now e (Suc (ticks s))) 0 (- 1) 0),
                  NotAfter = truncate_to_second validUntil,
                  BasicConstraintsValid = True,
                  KeyUsage = (if issuer = None \<and> isCA then 37 else 5),
                  ExtKeyUsage = (if issuer = None then [1] else []),
                  IsCA = (issuer = None)\<rparr>, signer = map_option X509 issuer, subjectKey = k\<rparr>),
             s\<lparr>ticks := Suc (Suc (ticks s))\<rparr>)"
  by (cases issuer; cases isCA)
     (simp_all add: certificateFor_def time_Now_def pk_Certificate_def Let_def
       KeyUsageKeyEncipherment_def KeyUsageDigitalSignature_def KeyUsageCertSign_def
       ExtKeyUsageServerAuth_def split: option.splits)

lemma certificateFor_frame:
  "certificateFor e name validUntil isCA issuer s = Return (r, s') \<Longrightarrow>
     s' = s\<lparr>ticks := Suc (Suc (ticks s))\<rparr>"
  by (auto simp: certificateFor_def time_Now_def Let_def split: outcome.splits)

lemma certificateFor_Panic:
  "certificateFor e name validUntil isCA issuer s = Panic \<longleftrightarrow> pk s = None"
  by (auto simp: certificateFor_def time_Now_def pk_Certificate_def Let_def split: outcome.splits option.splits)

lemma WriteToFile_frame:
  "WriteToFile e f c s = (r, s') \<Longrightarrow>
     pk s' = pk s \<and> caCert s' = caCert s \<and> serverCert s' = serverCert s \<and>
     trustStore s' = trustStore s \<and> trustCalls s' = trustCalls s"
  by (auto simp: WriteToFile_def split: option.splits)

lemma initCommonCerts_newCACert_frame:
  "initCommonCerts_newCACert e err s = Return (r, s') \<Longrightarrow>
     trustStore s' = trustStore s \<and> trustCalls s' = trustCalls s \<and> pk s' = pk s \<and>
     (r = None \<longrightarrow> caCert s' \<noteq> None)"
  by (auto simp: initCommonCerts_newCACert_def Let_def
           split: if_splits outcome.splits sum.splits prod.splits
           dest!: certificateFor_frame WriteToFile_frame)

lemma initCommonCerts_caCert_frame:
  "initCommonCerts_caCert e s = Return (r, s') \<Longrightarrow>
     trustStore s' = trustStore s \<and> trustCalls s' = trustCalls s \<and> pk s' = pk s \<and>
     (r = None \<longrightarrow> caCert s' \<noteq> None)"
  by (auto simp: initCommonCerts_caCert_def Let_def
           split: if_splits sum.splits
           dest!: initCommonCerts_newCACert_frame)

lemma install_cases:
  "installCACertToTrustStoreIfNecessary e s = Return (r, s') \<Longrightarrow>
     files s' = files s \<and> pk s' = pk s \<and> caCert s' = caCert s \<and>
     (\<exists>new. trustCalls s' = trustCalls s @ new \<and>
        (new \<noteq> [] \<longrightarrow> isDownstream e \<or> install e) \<and>
        (\<forall>c. Called_AddAsTrustedRoot c \<in> set new \<longrightarrow>
               caCert s = Some c \<and> IsInstalled e c (trustStore s) = Inr False \<and>
               trustStore s' = snd (AddAsTrustedRoot e c (trustStore s))) \<and>
        (trustStore s' \<noteq> trustStore s \<longrightarrow> (\<exists>c. Called_AddAsTrustedRoot c \<in> set new)))"
  by (auto simp: installCACertToTrustStoreIfNecessary_def Let_def
           split: if_splits option.splits sum.splits prod.splits)

lemma install_independent_of_ops:
  "caCert s \<noteq> None \<Longrightarrow>
   \<exists>r s'. installCACertToTrustStoreIfNecessary e s = Return (r, s')"
  by (auto simp: installCACertToTrustStoreIfNecessary_def Let_def
           split: if_splits option.splits sum.splits prod.splits)

lemma initCommonCerts_after_blocks:
  assumes "initCommonCerts_pk e s = (None, s1)"
      and "initCommonCerts_caCert e s1 = Return (None, s2)"
      and "installCACertToTrustStoreIfNecessary e s2 = Return (r, s3)"
  shows "initCommonCerts e s =
           Return (None, if r = None then s3
                         else Printf ''Unable to install CA Cert to trust store, man in the middling may not work.  Suggest running flashlight as sudo with the -install flag: %s'' s3)"
  using assms by (cases r) (simp_all add: initCommonCerts_def)

text \<open>The example inputs, evaluated.\<close>

lemmas demo_defs = demo_env_def empty_state_def demo_key_def demo_root_def state_with_key_def
  state_with_root_def

lemma demo_files [simp]:
  "PK_FILE demo_env = ''proxypk.pem''" "CA_CERT_FILE demo_env = ''cacert.pem''"
  "SERVER_CERT_FILE demo_env = ''servercert.pem''"
  by (simp_all add: PK_FILE_def CA_CERT_FILE_def SERVER_CERT_FILE_def inConfigDir_def demo_env_def)

lemma demo_pk_block: "initCommonCerts_pk demo_env empty_state = (None, state_with_key)"
  by (simp add: initCommonCerts_pk_def LoadPKFromFile_def GeneratePK_def WriteToFile_def
      Printf_def Let_def demo_defs PK_FILE_def inConfigDir_def)

lemma demo_caCert_block: "initCommonCerts_caCert demo_env state_with_key = Return (None, state_with_root)"
  by (simp add: initCommonCerts_caCert_def LoadCertificateFromFile_def initCommonCerts_newCACert_def
      certificateFor_def time_Now_def pk_Certificate_def WriteToFile_def Printf_def Let_def
      TEN_YEARS_FROM_TODAY_def FLASHLIGHT_CN_PREFIX_def Nanosecond_def truncate_to_second_def
      KeyUsageKeyEncipherment_def KeyUsageDigitalSignature_def KeyUsageCertSign_def
      ExtKeyUsageServerAuth_def demo_defs PK_FILE_def CA_CERT_FILE_def inConfigDir_def)

lemma demo_leaf_issued:
  "certificateFor demo_env name (ONE_YEAR_FROM_TODAY demo_env) True (Some demo_root)
       (state_with_root\<lparr>ticks := n\<rparr>) =
     Return (Inr \<lparr>X509 =
                   \<lparr>SerialNumber = Nanosecond (Now demo_env n), Organization = [''Lantern''],
                    CommonName = name,
                    NotBefore = truncate_to_second (AddDate demo_env (Now demo_env (Suc n)) 0 (- 1) 0),
                    NotAfter = truncate_to_second (ONE_YEAR_FROM_TODAY demo_env),
                    BasicConstraintsValid = True,
                    KeyUsage = 5, ExtKeyUsage = [], IsCA = False\<rparr>,
                  signer = Some (X509 demo_root), subjectKey = demo_key\<rparr>,
             state_with_root\<lparr>ticks := Suc (Suc n)\<rparr>)"
proof -
  have p: "pk (state_with_root\<lparr>ticks := n\<rparr>) = Some demo_key"
    by (simp add: state_with_root_def)
  have s: "sign_error demo_env k t = None" for k t
    by (simp add: demo_env_def)
  show ?thesis
    using certificateFor_result [OF p, of demo_env name "ONE_YEAR_FROM_TODAY demo_env" True "Some demo_root"]
    by (simp add: s)
qed

section \<open>The client rewriter and local destinations\<close>

text \<open>
  Claim C3. When the host of a request, without its port, resolves to an address, the
  Director leaves the request as it is and does not call \<^verbatim>\<open>RewriteRequest\<close> if the address
  is a loopback address, and calls \<^verbatim>\<open>RewriteRequest\<close> on it, once, if the address is not.
\<close>

theorem Director_loopback_not_rewritten:
  assumes "ResolveIPAddr ''ip4'' (takeWhile (\<lambda>c. c \<noteq> CHR '':'') (Host req)) = Inr ip"
  shows "(IsLoopback ip \<longrightarrow>
            fst (clientProxy_Director ResolveIPAddr IsLoopback RewriteRequest dumpheaders req) = req \<and>
            filter is_RewriteRequest
              (snd (clientProxy_Director ResolveIPAddr IsLoopback RewriteRequest dumpheaders req)) = []) \<and>
         (\<not> IsLoopback ip \<longrightarrow>
            fst (clientProxy_Director ResolveIPAddr IsLoopback RewriteRequest dumpheaders req) =
              RewriteRequest req \<and>
            filter is_RewriteRequest
              (snd (clientProxy_Director ResolveIPAddr IsLoopback RewriteRequest dumpheaders req)) =
              [Call_RewriteRequest req])"
  using assms
  by (simp add: clientProxy_Director_def Split_first dumpHeaders_def is_RewriteRequest_def Let_def)

theorem Director_loopback_not_rewritten_witness:
  "resolver ''ip4'' (takeWhile (\<lambda>c. c \<noteq> CHR '':'') (Host (request_to ''GET'' ''localhost:8080''))) = Inr [127, 0, 0, 1]
   \<and> first_is_127 [127, 0, 0, 1]
   \<and> clientProxy_Director resolver first_is_127 to_front True (request_to ''GET'' ''localhost:8080'')
       = (request_to ''GET'' ''localhost:8080'', [Log_Headers ''Request'' Map.empty])
   \<and> resolver ''ip4'' (takeWhile (\<lambda>c. c \<noteq> CHR '':'') (Host (request_to ''GET'' ''example.com''))) = Inr [93, 184, 216, 34]
   \<and> fst (clientProxy_Director resolver first_is_127 to_front True (request_to ''GET'' ''example.com''))
       = (request_to ''GET'' ''example.com'')\<lparr>Host := ''front.example''\<rparr>"
proof -
  have a: "resolver ''ip4'' (takeWhile (\<lambda>c. c \<noteq> CHR '':'') (Host (request_to ''GET'' ''localhost:8080''))) = Inr [127, 0, 0, 1]"
    by (simp add: resolver_def request_to_def)
  have b: "resolver ''ip4'' (takeWhile (\<lambda>c. c \<noteq> CHR '':'') (Host (request_to ''GET'' ''example.com''))) = Inr [93, 184, 216, 34]"
    by (simp add: resolver_def request_to_def)
  have l: "first_is_127 [127, 0, 0, 1]" "\<not> first_is_127 [93, 184, 216, 34]"
    by (simp_all add: first_is_127_def)
  from Director_loopback_not_rewritten [where ResolveIPAddr = resolver and IsLoopback = first_is_127
      and RewriteRequest = to_front and dumpheaders = True, OF a] l
  have 1: "fst (clientProxy_Director resolver first_is_127 to_front True (request_to ''GET'' ''localhost:8080'')) = request_to ''GET'' ''localhost:8080''"
    by simp
  from Director_loopback_not_rewritten [where ResolveIPAddr = resolver and IsLoopback = first_is_127
      and RewriteRequest = to_front and dumpheaders = True, OF b] l
  have 2: "fst (clientProxy_Director resolver first_is_127 to_front True (request_to ''GET'' ''example.com'')) = to_front (request_to ''GET'' ''example.com'')"
    by simp
  have 3: "snd (clientProxy_Director resolver first_is_127 to_front True (request_to ''GET'' ''localhost:8080'')) = [Log_Headers ''Request'' Map.empty]"
    by (simp add: clientProxy_Director_def Split_first resolver_def first_is_127_def dumpHeaders_def request_to_def)
  show ?thesis using a b l 1 2 3 by (simp add: prod_eq_iff to_front_def)
qed

text \<open>
  Claim C10. When resolving the host of a request, without its port, fails, the Director
  does not call \<^verbatim>\<open>RewriteRequest\<close> and leaves the request as it is.
\<close>

theorem Director_unresolved_not_rewritten:
  assumes "ResolveIPAddr ''ip4'' (takeWhile (\<lambda>c. c \<noteq> CHR '':'') (Host req)) = Inl err"
  shows "fst (clientProxy_Director ResolveIPAddr IsLoopback RewriteRequest dumpheaders req) = req \<and>
         filter is_RewriteRequest
           (snd (clientProxy_Director ResolveIPAddr IsLoopback RewriteRequest dumpheaders req)) = []"
  using assms
  by (simp add: clientProxy_Director_def Split_first dumpHeaders_def is_RewriteRequest_def)

theorem Director_unresolved_not_rewritten_witness:
  "resolver ''ip4'' (takeWhile (\<lambda>c. c \<noteq> CHR '':'') (Host (request_to ''GET'' ''no-such-host.invalid:80'')))
     = Inl (Failure ''no such host'')
   \<and> fst (clientProxy_Director resolver first_is_127 to_front False (request_to ''GET'' ''no-such-host.invalid:80''))
     = request_to ''GET'' ''no-such-host.invalid:80''
   \<and> snd (clientProxy_Director resolver first_is_127 to_front False (request_to ''GET'' ''no-such-host.invalid:80''))
     = []"
proof -
  have a: "resolver ''ip4'' (takeWhile (\<lambda>c. c \<noteq> CHR '':'') (Host (request_to ''GET'' ''no-such-host.invalid:80'')))
     = Inl (Failure ''no such host'')"
    by (simp add: resolver_def request_to_def)
  have b: "snd (clientProxy_Director resolver first_is_127 to_front False (request_to ''GET'' ''no-such-host.invalid:80'')) = []"
    by (simp add: clientProxy_Director_def Split_first resolver_def dumpHeaders_def request_to_def)
  from Director_unresolved_not_rewritten [where ResolveIPAddr = resolver and IsLoopback = first_is_127
      and RewriteRequest = to_front and dumpheaders = False, OF a]
  show ?thesis using a b by simp
qed

section \<open>Rewriting responses\<close>

text \<open>
  Claim C6. \<^verbatim>\<open>RoundTrip\<close> calls the rewrite function exactly when the inner round tripper
  returned no error, and then returns the rewritten response; when the inner round tripper
  returned an error, its response and error are returned as they are and nothing is called.
\<close>

theorem RoundTrip_rewrites_only_on_success:
  "(filter is_rewrite (snd (RoundTrip dumpheaders rt req)) \<noteq> [] \<longleftrightarrow> snd (orig rt req) = None) \<and>
   (\<forall>r. orig rt req = (Some r, None) \<longrightarrow>
        fst (RoundTrip dumpheaders rt req) = Return (Some (rewrite rt r), None)) \<and>
   (snd (orig rt req) \<noteq> None \<longrightarrow>
        fst (RoundTrip dumpheaders rt req) = Return (orig rt req) \<and>
        snd (RoundTrip dumpheaders rt req) = [])"
  by (cases "orig rt req")
     (auto simp: RoundTrip_def is_rewrite_def dumpHeaders_def Let_def split: option.splits)

theorem RoundTrip_rewrites_only_on_success_witness:
  "fst (RoundTrip False (withRewrite strip_header inner_rt) (request_to ''GET'' ''example.com''))
     = Return (Some \<lparr>StatusCode = 200, RespHeader = [''Cf-Ray'' \<mapsto> [''1'']](''Cf-Ray'' := None), Body = ''ok''\<rparr>, None)
   \<and> RoundTrip False (withRewrite strip_header inner_rt) (request_to ''GET'' ''down.example'')
     = (Return (None, Some (Failure ''dial tcp: connection refused'')), [])"
proof -
  let ?rt = "withRewrite strip_header inner_rt"
  have a: "orig ?rt (request_to ''GET'' ''example.com'')
      = (Some \<lparr>StatusCode = 200, RespHeader = [''Cf-Ray'' \<mapsto> [''1'']], Body = ''ok''\<rparr>, None)"
    by (simp add: withRewrite_def inner_rt_def request_to_def)
  have b: "orig ?rt (request_to ''GET'' ''down.example'') = (None, Some (Failure ''dial tcp: connection refused''))"
    by (simp add: withRewrite_def inner_rt_def request_to_def)
  have c: "rewrite ?rt = strip_header" by (simp add: withRewrite_def)
  from RoundTrip_rewrites_only_on_success [of False ?rt "request_to ''GET'' ''example.com''"] a c
  have 1: "fst (RoundTrip False ?rt (request_to ''GET'' ''example.com''))
      = Return (Some (strip_header \<lparr>StatusCode = 200, RespHeader = [''Cf-Ray'' \<mapsto> [''1'']], Body = ''ok''\<rparr>), None)"
    by simp
  from RoundTrip_rewrites_only_on_success [of False ?rt "request_to ''GET'' ''down.example''"] b
  have 2: "RoundTrip False ?rt (request_to ''GET'' ''down.example'')
      = (Return (None, Some (Failure ''dial tcp: connection refused'')), [])"
    by (simp add: prod_eq_iff)
  show ?thesis using 1 2 by (simp add: strip_header_def)
qed

section \<open>Routing in the downstream client\<close>

text \<open>
  Claim C9. \<^verbatim>\<open>Client.ServeHTTP\<close> hands a request whose method is CONNECT to
  \<^verbatim>\<open>EnproxyConfig.Intercept\<close> and every other request to the reverse proxy; each request is
  handed to exactly one of the two.
\<close>

theorem Client_ServeHTTP_dispatch:
  "(Method req = CONNECT \<longrightarrow>
      fst (Client_ServeHTTP client resp req) = Intercept client resp req \<and>
      filter is_dispatch (snd (Client_ServeHTTP client resp req)) = [Call_Intercept req]) \<and>
   (Method req \<noteq> CONNECT \<longrightarrow>
      fst (Client_ServeHTTP client resp req) = reverseProxy_ServeHTTP client resp req \<and>
      filter is_dispatch (snd (Client_ServeHTTP client resp req)) = [Call_reverseProxy_ServeHTTP req]) \<and>
   length (filter is_dispatch (snd (Client_ServeHTTP client resp req))) = 1"
  by (simp add: Client_ServeHTTP_def is_dispatch_def)

theorem Client_ServeHTTP_dispatch_witness:
  "fst (Client_ServeHTTP demo_client freshWriter (request_to ''CONNECT'' ''example.com:443''))
     = freshWriter\<lparr>body := ''tunnel''\<rparr>
   \<and> fst (Client_ServeHTTP demo_client freshWriter (request_to ''GET'' ''example.com''))
     = freshWriter\<lparr>body := ''proxied''\<rparr>"
proof -
  have a: "Method (request_to ''CONNECT'' ''example.com:443'') = CONNECT"
    by (simp add: request_to_def CONNECT_def)
  have b: "Method (request_to ''GET'' ''example.com'') \<noteq> CONNECT"
    by (simp add: request_to_def CONNECT_def)
  from Client_ServeHTTP_dispatch [of "request_to ''CONNECT'' ''example.com:443''" demo_client freshWriter] a
  have 1: "fst (Client_ServeHTTP demo_client freshWriter (request_to ''CONNECT'' ''example.com:443''))
     = Intercept demo_client freshWriter (request_to ''CONNECT'' ''example.com:443'')"
    by simp
  from Client_ServeHTTP_dispatch [of "request_to ''GET'' ''example.com''" demo_client freshWriter] b
  have 2: "fst (Client_ServeHTTP demo_client freshWriter (request_to ''GET'' ''example.com''))
     = reverseProxy_ServeHTTP demo_client freshWriter (request_to ''GET'' ''example.com'')"
    by simp
  show ?thesis using 1 2 by (simp add: demo_client_def)
qed

section \<open>The diagnostic request\<close>

text \<open>
  Claim C4, which asks that a request with a non-empty \<^verbatim>\<open>X-Lantern-Request-Info\<close> header
  be answered without reaching the server proxy, with status 200, an empty body and the IP
  address of the caller in the \<^verbatim>\<open>X-LANTERN-PUBLIC-IP\<close> header. The code does the first
  three: the request is answered by \<^verbatim>\<open>handleInfoRequest\<close> whatever the server proxy is, the
  server proxy is not called, and on a writer that has sent nothing yet the status is 200
  and the body empty. The header, however, holds the part of \<^verbatim>\<open>X-Forwarded-For\<close> after
  its last comma or, without that header, the remote address up to its first colon. For a
  caller with an IPv6 address, written \<^verbatim>\<open>[2001:db8::1]:40000\<close>, that is the text
  \<^verbatim>\<open>[2001\<close> and not the address: the instance after the theorem computes it.
\<close>

theorem handleServer_answers_info_request:
  assumes "Header_Get canon (Header req) X_LANTERN_REQUEST_INFO \<noteq> []"
      and "\<not> wroteHeader resp" and "body resp = []"
  shows "handleServer canon serverProxy_ServeHTTP resp req =
           (handleInfoRequest canon resp req, [Call_handleInfoRequest req]) \<and>
         wroteHeader (handleInfoRequest canon resp req) \<and>
         status (handleInfoRequest canon resp req) = 200 \<and>
         body (handleInfoRequest canon resp req) = [] \<and>
         Header_Get canon (sentHeader (handleInfoRequest canon resp req)) X_LANTERN_PUBLIC_IP =
           (if Header_Get canon (Header req) ''X-Forwarded-For'' = []
            then takeWhile (\<lambda>c. c \<noteq> CHR '':'') (RemoteAddr req)
            else rev (takeWhile (\<lambda>c. c \<noteq> CHR '','')
                       (rev (Header_Get canon (Header req) ''X-Forwarded-For''))))"
  using assms
  by (simp del: One_nat_def
      add: handleServer_def handleInfoRequest_def WriteHeader_def Header_Get_Set
        Split_first Split_last Let_def)

theorem handleServer_answers_info_request_witness:
  "Header_Get canon_id (sentHeader (fst (handleServer canon_id (\<lambda>w r. w\<lparr>body := ''proxied''\<rparr>) freshWriter (info_request []))))
       X_LANTERN_PUBLIC_IP = ''203.0.113.9''
   \<and> status (fst (handleServer canon_id (\<lambda>w r. w\<lparr>body := ''proxied''\<rparr>) freshWriter (info_request []))) = 200
   \<and> body (fst (handleServer canon_id (\<lambda>w r. w\<lparr>body := ''proxied''\<rparr>) freshWriter (info_request []))) = []
   \<and> Header_Get canon_id (sentHeader (fst (handleServer canon_id (\<lambda>w r. w\<lparr>body := ''proxied''\<rparr>) freshWriter
          (info_request ''198.51.100.7,192.0.2.44'')))) X_LANTERN_PUBLIC_IP = ''192.0.2.44''
   \<and> Header_Get canon_id (Header info_request_ipv6) X_LANTERN_REQUEST_INFO = ''1''
   \<and> Header_Get canon_id (Header info_request_ipv6) ''X-Forwarded-For'' = []
   \<and> RemoteAddr info_request_ipv6 = ''[2001:db8::1]:40000''
   \<and> handleServer canon_id (\<lambda>w r. w\<lparr>body := ''proxied''\<rparr>) freshWriter info_request_ipv6
       = (handleInfoRequest canon_id freshWriter info_request_ipv6, [Call_handleInfoRequest info_request_ipv6])
   \<and> status (handleInfoRequest canon_id freshWriter info_request_ipv6) = 200
   \<and> Header_Get canon_id (sentHeader (handleInfoRequest canon_id freshWriter info_request_ipv6))
       X_LANTERN_PUBLIC_IP = ''[2001''"
proof -
  have a: "Header_Get canon_id (Header (info_request xff)) X_LANTERN_REQUEST_INFO \<noteq> []" for xff
    by (simp add: Header_Get_def canon_id_def info_request_def X_LANTERN_REQUEST_INFO_def)
  have b: "\<not> wroteHeader freshWriter" "body freshWriter = []"
    by (simp_all add: freshWriter_def)
  have x1: "Header_Get canon_id (Header (info_request [])) ''X-Forwarded-For'' = []"
    by (simp add: Header_Get_def canon_id_def info_request_def)
  have x2: "Header_Get canon_id (Header (info_request ''198.51.100.7,192.0.2.44'')) ''X-Forwarded-For''
      = ''198.51.100.7,192.0.2.44''"
    by (simp add: Header_Get_def canon_id_def info_request_def)
  have r: "RemoteAddr (info_request xff) = ''203.0.113.9:40000''" for xff
    by (simp add: info_request_def)
  from handleServer_answers_info_request [OF a [of "[]"] b,
      where serverProxy_ServeHTTP = "\<lambda>w r. w\<lparr>body := ''proxied''\<rparr>"]
  have 1: "Header_Get canon_id (sentHeader (fst (handleServer canon_id (\<lambda>w r. w\<lparr>body := ''proxied''\<rparr>) freshWriter (info_request []))))
       X_LANTERN_PUBLIC_IP = ''203.0.113.9''"
    and 2: "status (fst (handleServer canon_id (\<lambda>w r. w\<lparr>body := ''proxied''\<rparr>) freshWriter (info_request []))) = 200"
    and 3: "body (fst (handleServer canon_id (\<lambda>w r. w\<lparr>body := ''proxied''\<rparr>) freshWriter (info_request []))) = []"
    by (simp_all add: x1 r)
  from handleServer_answers_info_request [OF a [of "''198.51.100.7,192.0.2.44''"] b,
      where serverProxy_ServeHTTP = "\<lambda>w r. w\<lparr>body := ''proxied''\<rparr>"]
  have 4: "Header_Get canon_id (sentHeader (fst (handleServer canon_id (\<lambda>w r. w\<lparr>body := ''proxied''\<rparr>) freshWriter
          (info_request ''198.51.100.7,192.0.2.44'')))) X_LANTERN_PUBLIC_IP = ''192.0.2.44''"
    by (simp add: x2)
  have a6: "Header_Get canon_id (Header info_request_ipv6) X_LANTERN_REQUEST_INFO = ''1''"
    and x6: "Header_Get canon_id (Header info_request_ipv6) ''X-Forwarded-For'' = []"
    and r6: "RemoteAddr info_request_ipv6 = ''[2001:db8::1]:40000''"
    by (simp_all add: Header_Get_def canon_id_def info_request_ipv6_def info_request_def
          X_LANTERN_REQUEST_INFO_def)
  have a6': "Header_Get canon_id (Header info_request_ipv6) X_LANTERN_REQUEST_INFO \<noteq> []"
    by (simp add: a6)
  from handleServer_answers_info_request [OF a6' b,
      where serverProxy_ServeHTTP = "\<lambda>w r. w\<lparr>body := ''proxied''\<rparr>"]
  have 5: "handleServer canon_id (\<lambda>w r. w\<lparr>body := ''proxied''\<rparr>) freshWriter info_request_ipv6
       = (handleInfoRequest canon_id freshWriter info_request_ipv6, [Call_handleInfoRequest info_request_ipv6])"
    and 6: "status (handleInfoRequest canon_id freshWriter info_request_ipv6) = 200"
    and 7: "Header_Get canon_id (sentHeader (handleInfoRequest canon_id freshWriter info_request_ipv6))
       X_LANTERN_PUBLIC_IP = ''[2001''"
    by (simp_all add: x6 r6)
  show ?thesis using 1 2 3 4 5 6 7 a6 x6 r6 by simp
qed

section \<open>The signing identity\<close>

text \<open>
  Claim C7. On a first run, with neither the key file nor the root certificate file on disk,
  and when key generation, signing and the two writes succeed, \<^verbatim>\<open>initCommonCerts\<close> returns
  no error; the key is the one generated for 2048 bits; the root certificate is self-signed
  for that key, has \<^verbatim>\<open>IsCA\<close> set and certificate signing among its key usages, is named
  with the prefix and a fresh UUID, and expires ten years after the clock reading taken when
  the process started, in whole seconds (so less than a second earlier than that instant);
  both are in their files afterwards.
\<close>

theorem initCommonCerts_creates_signing_identity:
  assumes nopk: "files s (PK_FILE e) = None"
      and noca: "files s (CA_CERT_FILE e) = None"
      and gen: "keygen e 2048 = Inr m"
      and sign: "\<And>t. sign_error e \<lparr>bits = 2048, material = m\<rparr> t = None"
      and wr: "write_error e (PK_FILE e) = None" "write_error e (CA_CERT_FILE e) = None"
  shows "\<exists>s' k c.
           initCommonCerts e s = Return (None, s') \<and>
           pk s' = Some k \<and> GeneratePK e 2048 = Inr k \<and> 2048 \<le> bits k \<and>
           caCert s' = Some c \<and> signer c = None \<and> subjectKey c = k \<and>
           IsCA (X509 c) \<and>
           KeyUsage (X509 c) AND KeyUsageCertSign = KeyUsageCertSign \<and>
           NotAfter (X509 c) = truncate_to_second (AddDate e (Now e 3) 10 0 0) \<and>
           AddDate e (Now e 3) 10 0 0 - 1000000000 < NotAfter (X509 c) \<and>
           NotAfter (X509 c) \<le> AddDate e (Now e 3) 10 0 0 \<and>
           CommonName (X509 c) = FLASHLIGHT_CN_PREFIX @ uuid_New e \<and>
           files s' (PK_FILE e) = Some (PEM_PrivateKey k) \<and>
           files s' (CA_CERT_FILE e) = Some (PEM_Certificate c)"
proof -
  let ?k = "\<lparr>bits = 2048, material = m\<rparr>"
  let ?s1 = "(Printf ''Creating new PK at: %s'' (s\<lparr>pk := None\<rparr>))
       \<lparr>pk := Some ?k, files := (files s)(PK_FILE e \<mapsto> PEM_PrivateKey ?k)\<rparr>"
  have b1: "initCommonCerts_pk e s = (None, ?s1)"
    using initCommonCerts_pk_created [OF nopk gen wr(1)] .
  have k: "GeneratePK e 2048 = Inr ?k"
    using gen by (simp add: GeneratePK_def)
  have load: "LoadCertificateFromFile ?s1 (CA_CERT_FILE e) = Inl (NotExist (CA_CERT_FILE e))"
    using noca files_distinct [of e] by (simp add: LoadCertificateFromFile_def)
  let ?sa = "Printf ''Creating new self-signed CA cert at: %s'' (?s1\<lparr>caCert := None\<rparr>)"
  let ?t = "\<lparr>SerialNumber = Nanosecond (Now e (ticks ?sa)),
             Organization = [''Lantern''],
             CommonName = FLASHLIGHT_CN_PREFIX @ uuid_New e,
             NotBefore = truncate_to_second (AddDate e (Now e (Suc (ticks ?sa))) 0 (- 1) 0),
             NotAfter = truncate_to_second (TEN_YEARS_FROM_TODAY e),
             BasicConstraintsValid = True,
             KeyUsage = 37, ExtKeyUsage = [1], IsCA = True\<rparr>"
  let ?c = "\<lparr>X509 = ?t, signer = None, subjectKey = ?k\<rparr>"
  have pks: "pk ?sa = Some ?k" by simp
  have cf: "certificateFor e (FLASHLIGHT_CN_PREFIX @ uuid_New e) (TEN_YEARS_FROM_TODAY e) True None ?sa
      = Return (Inr ?c, ?sa\<lparr>ticks := Suc (Suc (ticks ?sa))\<rparr>)"
    using certificateFor_result [OF pks, of e "FLASHLIGHT_CN_PREFIX @ uuid_New e" "TEN_YEARS_FROM_TODAY e" True None]
    by (simp add: sign)
  let ?s2 = "(?sa\<lparr>ticks := Suc (Suc (ticks ?sa))\<rparr>)
       \<lparr>caCert := Some ?c, files := (files ?s1)(CA_CERT_FILE e \<mapsto> PEM_Certificate ?c)\<rparr>"
  have b2: "initCommonCerts_caCert e ?s1 = Return (None, ?s2)"
    unfolding initCommonCerts_caCert_def load
    by (simp add: initCommonCerts_newCACert_def Let_def cf WriteToFile_def wr)
  have ca: "caCert ?s2 \<noteq> None" by simp
  then obtain r s3 where inst: "installCACertToTrustStoreIfNecessary e ?s2 = Return (r, s3)"
    using install_independent_of_ops by blast
  let ?s' = "if r = None then s3
             else Printf ''Unable to install CA Cert to trust store, man in the middling may not work.  Suggest running flashlight as sudo with the -install flag: %s'' s3"
  have res: "initCommonCerts e s = Return (None, ?s')"
    using initCommonCerts_after_blocks [OF b1 b2 inst] .
  from install_cases [OF inst]
  have keep: "files s3 = files ?s2" "pk s3 = pk ?s2" "caCert s3 = caCert ?s2" by blast+
  have keep': "files ?s' = files ?s2" "pk ?s' = pk ?s2" "caCert ?s' = caCert ?s2"
    using keep by simp_all
  have "pk ?s' = Some ?k" "caCert ?s' = Some ?c"
       "files ?s' (PK_FILE e) = Some (PEM_PrivateKey ?k)"
       "files ?s' (CA_CERT_FILE e) = Some (PEM_Certificate ?c)"
    unfolding keep' using files_distinct [of e] by simp_all
  moreover have "signer ?c = None" "subjectKey ?c = ?k" "IsCA (X509 ?c)"
       "KeyUsage (X509 ?c) AND KeyUsageCertSign = KeyUsageCertSign"
       "NotAfter (X509 ?c) = truncate_to_second (AddDate e (Now e 3) 10 0 0)"
       "AddDate e (Now e 3) 10 0 0 - 1000000000 < NotAfter (X509 ?c)"
       "NotAfter (X509 ?c) \<le> AddDate e (Now e 3) 10 0 0"
       "CommonName (X509 ?c) = FLASHLIGHT_CN_PREFIX @ uuid_New e"
       "2048 \<le> bits ?k"
    by (simp_all add: KeyUsageCertSign_def TEN_YEARS_FROM_TODAY_def truncate_to_second_bounds)
  ultimately show ?thesis using res k by blast
qed

theorem initCommonCerts_creates_signing_identity_witness:
  "files empty_state (PK_FILE demo_env) = None \<and>
   files empty_state (CA_CERT_FILE demo_env) = None \<and>
   keygen demo_env 2048 = Inr 7 \<and>
   map_option fst (returned (initCommonCerts demo_env empty_state)) = Some None \<and>
   map_option (\<lambda>r. pk (snd r)) (returned (initCommonCerts demo_env empty_state)) = Some (Some demo_key) \<and>
   map_option (\<lambda>r. files (snd r) ''proxypk.pem'') (returned (initCommonCerts demo_env empty_state))
     = Some (Some (PEM_PrivateKey demo_key)) \<and>
   map_option (\<lambda>r. map_option (\<lambda>c. IsCA (X509 c)) (caCert (snd r)))
     (returned (initCommonCerts demo_env empty_state)) = Some (Some True) \<and>
   map_option (\<lambda>r. map_option (\<lambda>c. NotAfter (X509 c)) (caCert (snd r)))
     (returned (initCommonCerts demo_env empty_state)) = Some (Some 2015360001000000000)"
proof -
  have h1: "files empty_state (PK_FILE demo_env) = None"
    and h2: "files empty_state (CA_CERT_FILE demo_env) = None"
    by (simp_all add: empty_state_def)
  have h3: "keygen demo_env 2048 = Inr 7"
    and h4: "\<And>t. sign_error demo_env \<lparr>bits = 2048, material = 7\<rparr> t = None"
    and h5: "write_error demo_env (PK_FILE demo_env) = None"
    and h6: "write_error demo_env (CA_CERT_FILE demo_env) = None"
    by (simp_all add: demo_env_def)
  from initCommonCerts_creates_signing_identity [OF h1 h2 h3 h4 h5 h6]
  obtain s' k c where
    r: "initCommonCerts demo_env empty_state = Return (None, s')" and
    k: "pk s' = Some k" "GeneratePK demo_env 2048 = Inr k" and
    c: "caCert s' = Some c" "IsCA (X509 c)"
       "NotAfter (X509 c) = truncate_to_second (AddDate demo_env (Now demo_env 3) 10 0 0)" and
    f: "files s' (PK_FILE demo_env) = Some (PEM_PrivateKey k)"
    by blast
  have k': "k = demo_key"
    using k(2) by (simp add: GeneratePK_def demo_env_def demo_key_def)
  have t: "truncate_to_second (AddDate demo_env (Now demo_env 3) 10 0 0) = 2015360001000000000"
    by (simp add: demo_env_def truncate_to_second_def)
  show ?thesis
    using h1 h2 h3 r k(1) c f k' t by (simp add: returned_def)
qed

text \<open>
  Claim C1, which asks that a root certificate that loads but expires within the month be
  replaced. The code does not replace it: the loading error is nil, \<^verbatim>\<open>os.IsNotExist(nil)\<close>
  is false, and \<^verbatim>\<open>initCommonCerts\<close> returns the error of an unreadable certificate, with
  the files and the expiring certificate left as they were.
\<close>

theorem initCommonCerts_expiring_root_is_an_error:
  assumes "files s (PK_FILE e) = Some (PEM_PrivateKey k)"
      and "files s (CA_CERT_FILE e) = Some (PEM_Certificate c)"
      and "Before (NotAfter (X509 c)) (ONE_MONTH_FROM_TODAY e)"
  shows "initCommonCerts e s =
           Return (Some (Errorf ''Unable to read CA cert, even though it exists: %s'' None),
                   s\<lparr>pk := Some k, caCert := Some c\<rparr>)"
  using assms
  by (simp add: initCommonCerts_def initCommonCerts_pk_loaded initCommonCerts_caCert_def
       LoadCertificateFromFile_def initCommonCerts_newCACert_def Let_def)

theorem initCommonCerts_expiring_root_is_an_error_witness:
  "files state_expiring_root (PK_FILE demo_env) = Some (PEM_PrivateKey demo_key) \<and>
   files state_expiring_root (CA_CERT_FILE demo_env) = Some (PEM_Certificate expiring_root) \<and>
   Before (NotAfter (X509 expiring_root)) (ONE_MONTH_FROM_TODAY demo_env) \<and>
   initCommonCerts demo_env state_expiring_root =
     Return (Some (Errorf ''Unable to read CA cert, even though it exists: %s'' None),
             state_expiring_root\<lparr>pk := Some demo_key, caCert := Some expiring_root\<rparr>)"
proof -
  have h1: "files state_expiring_root (PK_FILE demo_env) = Some (PEM_PrivateKey demo_key)"
    and h2: "files state_expiring_root (CA_CERT_FILE demo_env) = Some (PEM_Certificate expiring_root)"
    by (simp_all add: state_expiring_root_def)
  have h3: "Before (NotAfter (X509 expiring_root)) (ONE_MONTH_FROM_TODAY demo_env)"
    by (simp add: Before_def ONE_MONTH_FROM_TODAY_def expiring_root_def demo_env_def)
  from initCommonCerts_expiring_root_is_an_error [OF h1 h2 h3] h1 h2 h3
  show ?thesis by simp
qed

section \<open>The trust store\<close>

text \<open>
  Claim C8. Once the key and the root certificate are in place, \<^verbatim>\<open>initCommonCerts\<close>
  returns no error whatever \<^verbatim>\<open>installCACertToTrustStoreIfNecessary\<close> returns. The trust
  store operations are called only in the client role or in install mode;
  \<^verbatim>\<open>AddAsTrustedRoot\<close> is called only on the root certificate and only after
  \<^verbatim>\<open>IsInstalled\<close> answered that it is not installed; and the trust store changes only
  through such a call.
\<close>

theorem trust_store_failure_is_not_fatal:
  assumes "initCommonCerts_pk e s = (None, s1)"
      and "initCommonCerts_caCert e s1 = Return (None, s2)"
  shows "\<exists>r s3 s'.
           installCACertToTrustStoreIfNecessary e s2 = Return (r, s3) \<and>
           initCommonCerts e s = Return (None, s') \<and>
           s' = (if r = None then s3
                 else Printf ''Unable to install CA Cert to trust store, man in the middling may not work.  Suggest running flashlight as sudo with the -install flag: %s'' s3) \<and>
           (\<exists>new. trustCalls s' = trustCalls s @ new \<and>
              (new \<noteq> [] \<longrightarrow> isDownstream e \<or> install e) \<and>
              (\<forall>c. Called_AddAsTrustedRoot c \<in> set new \<longrightarrow>
                     caCert s2 = Some c \<and> IsInstalled e c (trustStore s) = Inr False) \<and>
              (trustStore s' \<noteq> trustStore s \<longrightarrow> (\<exists>c. Called_AddAsTrustedRoot c \<in> set new)))"
proof -
  from assms(1) have f1: "trustStore s1 = trustStore s" "trustCalls s1 = trustCalls s"
    using initCommonCerts_pk_frame by blast+
  from assms(2) have f2: "trustStore s2 = trustStore s1" "trustCalls s2 = trustCalls s1"
    and ca: "caCert s2 \<noteq> None"
    using initCommonCerts_caCert_frame by blast+
  from ca obtain r s3 where inst: "installCACertToTrustStoreIfNecessary e s2 = Return (r, s3)"
    using install_independent_of_ops by blast
  let ?s' = "if r = None then s3
             else Printf ''Unable to install CA Cert to trust store, man in the middling may not work.  Suggest running flashlight as sudo with the -install flag: %s'' s3"
  have res: "initCommonCerts e s = Return (None, ?s')"
    using initCommonCerts_after_blocks [OF assms inst] .
  have same: "trustCalls ?s' = trustCalls s3" "trustStore ?s' = trustStore s3"
    by simp_all
  from install_cases [OF inst] obtain new where
    n1: "trustCalls s3 = trustCalls s2 @ new" and
    n2: "new \<noteq> [] \<longrightarrow> isDownstream e \<or> install e" and
    n3: "\<forall>c. Called_AddAsTrustedRoot c \<in> set new \<longrightarrow>
               caCert s2 = Some c \<and> IsInstalled e c (trustStore s2) = Inr False \<and>
               trustStore s3 = snd (AddAsTrustedRoot e c (trustStore s2))" and
    n4: "trustStore s3 \<noteq> trustStore s2 \<longrightarrow> (\<exists>c. Called_AddAsTrustedRoot c \<in> set new)"
    by blast
  have "trustCalls ?s' = trustCalls s @ new \<and>
        (new \<noteq> [] \<longrightarrow> isDownstream e \<or> install e) \<and>
        (\<forall>c. Called_AddAsTrustedRoot c \<in> set new \<longrightarrow>
               caCert s2 = Some c \<and> IsInstalled e c (trustStore s) = Inr False) \<and>
        (trustStore ?s' \<noteq> trustStore s \<longrightarrow> (\<exists>c. Called_AddAsTrustedRoot c \<in> set new))"
    using n1 n2 n3 n4 f1 f2 unfolding same by simp
  with inst res show ?thesis by blast
qed

theorem trust_store_failure_is_not_fatal_witness:
  "initCommonCerts_pk demo_env empty_state = (None, state_with_key) \<and>
   initCommonCerts_caCert demo_env state_with_key = Return (None, state_with_root) \<and>
   map_option fst (returned (installCACertToTrustStoreIfNecessary demo_env state_with_root))
     = Some (Some (Failure ''permission denied'')) \<and>
   map_option fst (returned (initCommonCerts demo_env empty_state)) = Some None"
proof -
  from trust_store_failure_is_not_fatal [OF demo_pk_block demo_caCert_block]
  obtain s' where "initCommonCerts demo_env empty_state = Return (None, s')"
    by blast
  then have 1: "map_option fst (returned (initCommonCerts demo_env empty_state)) = Some None"
    by (simp add: returned_def)
  have 2: "map_option fst (returned (installCACertToTrustStoreIfNecessary demo_env state_with_root))
     = Some (Some (Failure ''permission denied''))"
    by (simp add: installCACertToTrustStoreIfNecessary_def returned_def isDownstream_def Let_def
        demo_defs)
  show ?thesis using demo_pk_block demo_caCert_block 1 2 by simp
qed

section \<open>The server certificate\<close>

text \<open>
  Claim C2, which asks that the server certificate be reused or replaced by its own expiry.
  The code tests the expiry of the root certificate instead: a server certificate that
  loads is replaced when the root certificate expires within the month and is kept
  otherwise, whatever its own \<^verbatim>\<open>NotAfter\<close> is.
\<close>

theorem initServerCert_reuses_leaf_by_root_expiry:
  assumes "files s (SERVER_CERT_FILE e) = Some (PEM_Certificate c)"
      and "caCert s = Some ca"
  shows "initServerCert e host s =
           (if Before (NotAfter (X509 ca)) (ONE_MONTH_FROM_TODAY e)
            then initServerCert_newCert e host None (s\<lparr>serverCert := Some c\<rparr>)
            else Return (None, s\<lparr>serverCert := Some c\<rparr>))"
  using assms
  by (simp add: initServerCert_def LoadCertificateFromFile_def Let_def)

theorem initServerCert_reuses_leaf_by_root_expiry_witness:
  "files state_expired_leaf (SERVER_CERT_FILE server_env) = Some (PEM_Certificate expired_leaf) \<and>
   caCert state_expired_leaf = Some demo_root \<and>
   \<not> Before (NotAfter (X509 demo_root)) (ONE_MONTH_FROM_TODAY server_env) \<and>
   Before (NotAfter (X509 expired_leaf)) (Now server_env 0) \<and>
   initServerCert server_env ''198.51.100.1'' state_expired_leaf =
     Return (None, state_expired_leaf\<lparr>serverCert := Some expired_leaf\<rparr>)"
proof -
  have h1: "files state_expired_leaf (SERVER_CERT_FILE server_env) = Some (PEM_Certificate expired_leaf)"
    by (simp add: state_expired_leaf_def SERVER_CERT_FILE_def inConfigDir_def server_env_def demo_env_def)
  have h2: "caCert state_expired_leaf = Some demo_root"
    by (simp add: state_expired_leaf_def)
  have h3: "\<not> Before (NotAfter (X509 demo_root)) (ONE_MONTH_FROM_TODAY server_env)"
    by (simp add: Before_def ONE_MONTH_FROM_TODAY_def demo_root_def server_env_def demo_env_def)
  have h4: "Before (NotAfter (X509 expired_leaf)) (Now server_env 0)"
    by (simp add: Before_def expired_leaf_def server_env_def demo_env_def)
  from initServerCert_reuses_leaf_by_root_expiry [OF h1 h2, of "''198.51.100.1''"] h1 h2 h3 h4
  show ?thesis by simp
qed

section \<open>Serial numbers\<close>

text \<open>
  Claim C5, as stated, fails: two leaf certificates issued one after the other, at clock
  readings a whole second apart, carry the same serial number.
\<close>

theorem leaf_serials_collide:
  "issued_serial (certificateFor demo_env ''a.example'' (ONE_YEAR_FROM_TODAY demo_env) True (Some demo_root)
      (state_with_root\<lparr>ticks := 6\<rparr>)) = Some 123456789 \<and>
   map_option snd (returned (certificateFor demo_env ''a.example'' (ONE_YEAR_FROM_TODAY demo_env) True
      (Some demo_root) (state_with_root\<lparr>ticks := 6\<rparr>))) = Some (state_with_root\<lparr>ticks := 8\<rparr>) \<and>
   issued_serial (certificateFor demo_env ''b.example'' (ONE_YEAR_FROM_TODAY demo_env) True (Some demo_root)
      (state_with_root\<lparr>ticks := 8\<rparr>)) = Some 123456789"
proof -
  have n: "Nanosecond (Now demo_env 6) = 123456789" "Nanosecond (Now demo_env 8) = 123456789"
    by (simp_all add: Nanosecond_def demo_env_def)
  have e: "Suc (Suc 6) = 8" by simp
  show ?thesis
    unfolding demo_leaf_issued e by (simp add: issued_serial_def returned_def n)
qed

text \<open>
  Claim C5, amended. The serial number of a certificate issued by \<^verbatim>\<open>certificateFor\<close> is
  the nanosecond within the second of the clock reading taken at issuance, a number from 0
  to 999999999; two issuances have different serial numbers exactly when those readings
  differ in their nanoseconds.
\<close>

theorem certificateFor_serial_is_nanosecond_of_clock:
  assumes "certificateFor e name1 until1 isCA1 issuer1 s1 = Return (Inr c1, s1')"
      and "certificateFor e name2 until2 isCA2 issuer2 s2 = Return (Inr c2, s2')"
  shows "SerialNumber (X509 c1) = Nanosecond (Now e (ticks s1)) \<and>
         SerialNumber (X509 c2) = Nanosecond (Now e (ticks s2)) \<and>
         0 \<le> SerialNumber (X509 c1) \<and> SerialNumber (X509 c1) < 1000000000 \<and>
         (SerialNumber (X509 c1) \<noteq> SerialNumber (X509 c2) \<longleftrightarrow>
            Now e (ticks s1) mod 1000000000 \<noteq> Now e (ticks s2) mod 1000000000)"
proof -
  have ser: "SerialNumber (X509 c) = Nanosecond (Now e (ticks s))"
    if "certificateFor e name until isCA issuer s = Return (Inr c, s')"
    for name until isCA issuer s c s'
  proof (cases "pk s")
    case None
    then have "certificateFor e name until isCA issuer s = Panic"
      by (simp add: certificateFor_Panic)
    with that show ?thesis by simp
  next
    case (Some k)
    from certificateFor_result [OF Some, of e name until isCA issuer] that
    show ?thesis by (auto split: option.splits)
  qed
  from ser [OF assms(1)] ser [OF assms(2)]
  show ?thesis by (simp add: Nanosecond_def)
qed

theorem certificateFor_serial_is_nanosecond_of_clock_witness:
  "issued_serial (certificateFor demo_env ''a.example'' (ONE_YEAR_FROM_TODAY demo_env) True (Some demo_root)
      (state_with_root\<lparr>ticks := 6\<rparr>)) = Some (Nanosecond 1700000003123456789) \<and>
   issued_serial (certificateFor demo_env ''b.example'' (ONE_YEAR_FROM_TODAY demo_env) True (Some demo_root)
      (state_with_root\<lparr>ticks := 7\<rparr>)) = Some (Nanosecond 1700000003623456789) \<and>
   Nanosecond 1700000003123456789 \<noteq> Nanosecond 1700000003623456789"
proof -
  obtain c1 s1 where a: "certificateFor demo_env ''a.example'' (ONE_YEAR_FROM_TODAY demo_env) True
      (Some demo_root) (state_with_root\<lparr>ticks := 6\<rparr>) = Return (Inr c1, s1)"
    using demo_leaf_issued by blast
  obtain c2 s2 where b: "certificateFor demo_env ''b.example'' (ONE_YEAR_FROM_TODAY demo_env) True
      (Some demo_root) (state_with_root\<lparr>ticks := 7\<rparr>) = Return (Inr c2, s2)"
    using demo_leaf_issued by blast
  have t: "Now demo_env 6 = 1700000003123456789" "Now demo_env 7 = 1700000003623456789"
    by (simp_all add: demo_env_def)
  from certificateFor_serial_is_nanosecond_of_clock [OF a b]
  have "SerialNumber (X509 c1) = Nanosecond 1700000003123456789"
       "SerialNumber (X509 c2) = Nanosecond 1700000003623456789"
    by (simp_all add: t)
  then show ?thesis
    by (simp add: a b issued_serial_def) (simp add: Nanosecond_def)
qed

end
